theory Spec2Isabelle
  imports Complex_Main
begin

section \<open>Kernel objects of the KangerFjord notebook\<close>

text \<open>
  The notebook \<^verbatim>\<open>KangerFjord.ipynb\<close> builds two interpolation kernels with
  \<^verbatim>\<open>sd.KnW()\<close> and then overwrites the attribute \<^verbatim>\<open>hfuncs\<close> of one of them.
  The notebook reads two attributes of a kernel object: \<^verbatim>\<open>kernels\<close>, a list of
  stencils (each with a length), and \<^verbatim>\<open>hfuncs\<close>, a list of weight functions. A
  weight function takes the arrays \<^verbatim>\<open>rx\<close>, \<^verbatim>\<open>ry\<close> of the local coordinates
  of \<open>n\<close> points and returns an array of \<open>n\<close> rows, one weight per stencil point
  in each row. A stencil is a list of offsets (pairs of integers) from the cell of the
  point; the notebook uses its length only. numpy's float64 values are modelled as
  reals.
\<close>

type_synonym stencil = "(int \<times> int) list"

type_synonym hfunc = "real list \<Rightarrow> real list \<Rightarrow> real list list"

record KnW =
  kernels :: "stencil list"
  hfuncs :: "hfunc list"

text \<open>
  Python variables hold references. The kernel objects live in a store, a list indexed
  by address; a notebook variable such as \<^verbatim>\<open>kernel\<close> is an address.
\<close>

type_synonym heap = "KnW list"

text \<open>
  \<^verbatim>\<open>sd.KnW()\<close>: a new object at a fresh address. The value \<open>dflt\<close> that the
  constructor builds from its default arguments is a parameter (the constructor belongs
  to the seaduck package).
\<close>

definition KnW_init :: "KnW \<Rightarrow> heap \<Rightarrow> nat \<times> heap" where
  "KnW_init dflt h = (length h, h @ [dflt])"

text \<open>
  \<^verbatim>\<open>obj.hfuncs = fs\<close>: the attribute of the object at address \<open>a\<close> is rebound.
  A Python reference is never dangling; for an address outside the store the update
  leaves the store as it is.
\<close>

definition setattr_hfuncs :: "nat \<Rightarrow> hfunc list \<Rightarrow> heap \<Rightarrow> heap" where
  "setattr_hfuncs a fs h = h[a := (h ! a)\<lparr>hfuncs := fs\<rparr>]"

text \<open>
  \<^verbatim>\<open>
  kernel = sd.KnW()
  kernel_to_be_hacked = sd.KnW()
  \<close>
  The result is the two addresses and the new store.
\<close>

definition make_kernels :: "KnW \<Rightarrow> heap \<Rightarrow> nat \<times> nat \<times> heap" where
  "make_kernels dflt h =
     (let (kernel_plain, h1) = KnW_init dflt h;
          (kernel_to_be_hacked, h2) = KnW_init dflt h1
      in (kernel_plain, kernel_to_be_hacked, h2))"

text \<open>
  \<^verbatim>\<open>
  def dummy_weight(rx, ry, ans):
      n = len(rx)
      return np.ones((n, ans))
  \<close>
\<close>

definition dummy_weight :: "real list \<Rightarrow> real list \<Rightarrow> nat \<Rightarrow> real list list" where
  "dummy_weight rx ry ans = (let n = length rx in replicate n (replicate ans 1))"

text \<open>
  \<^verbatim>\<open>
  kernel_to_be_hacked.hfuncs = [partial(dummy_weight, ans=len(k)) for k in kernel.kernels]
  \<close>
  The list comprehension runs over the stencils of \<^verbatim>\<open>kernel\<close>, the other object
  (its address is written \<open>kernel_plain\<close>, since \<open>kernel\<close> is a constant of HOL).
\<close>

definition hack_hfuncs :: "nat \<Rightarrow> nat \<Rightarrow> heap \<Rightarrow> heap" where
  "hack_hfuncs kernel_plain kernel_to_be_hacked h =
     setattr_hfuncs kernel_to_be_hacked
       (map (\<lambda>k. (\<lambda>rx ry. dummy_weight rx ry (length k))) (kernels (h ! kernel_plain))) h"

text \<open>
  What \<^verbatim>\<open>sd.KnW()\<close> builds is a parameter of the definitions above. The kernel
  below is a concrete input to evaluate them on: a cascade of a two-point stencil (the
  cell and its neighbour in the direction of \<^verbatim>\<open>rx\<close>) and a one-point stencil.
  Its weight functions are legal in the words of the notebook ("the sum of contribution
  (weight) should be one"): linear in the local coordinate, with all the weight on the
  cell itself at local coordinate 0.
\<close>

definition linear_weight :: hfunc where
  "linear_weight rx ry = map (\<lambda>r. [1 - r, r]) rx"

definition nearest_weight :: hfunc where
  "nearest_weight rx ry = map (\<lambda>r. [1]) rx"

definition example_KnW :: KnW where
  "example_KnW = \<lparr>kernels = [[(0, 0), (0, 1)], [(0, 0)]],
                  hfuncs = [linear_weight, nearest_weight]\<rparr>"

section \<open>Datasets and errors\<close>

text \<open>
  A dataset (\<^verbatim>\<open>sd.OceData\<close>) is read by variable name. A field gives a value at
  every grid index (face, row, column); looking up a name that is not in the dataset
  raises \<^verbatim>\<open>KeyError\<close>.
\<close>

type_synonym grid_index = "nat \<times> int \<times> int"

type_synonym ocefield = "grid_index \<Rightarrow> real"

type_synonym dataset = "string \<rightharpoonup> ocefield"

text \<open>
  \<^verbatim>\<open>KeyError\<close> is Python's. The other two are the spec's: a
  \<^verbatim>\<open>ConfigurationError\<close> is fatal for the whole call, an
  \<^verbatim>\<open>InvalidFieldError\<close> (no valid value at a point) is recorded in the slot of the
  point.
\<close>

datatype error = KeyError string | ConfigurationError | InvalidFieldError

text \<open>
  \<^verbatim>\<open>tub["ones"] = xr.ones_like(tub["Eta"])\<close>: a field that is 1 at every index of
  \<^verbatim>\<open>Eta\<close>.
\<close>

definition ones_like :: "ocefield \<Rightarrow> ocefield" where
  "ones_like f = (\<lambda>idx. 1)"

definition add_ones :: "dataset \<Rightarrow> error + dataset" where
  "add_ones tub =
     (case tub ''Eta'' of
        None \<Rightarrow> Inl (KeyError ''Eta'')
      | Some eta \<Rightarrow> Inr (tub(''ones'' \<mapsto> ones_like eta)))"


section \<open>Interpolation through a kernel\<close>

text \<open>
  Modelled from the spec: \<^verbatim>\<open>CellLocation\<close>, the resolved cell of a query point
  (seaduck keeps it inside its \<^verbatim>\<open>Position\<close> objects; the notebooks never read
  it): "face id, integer cell indices, local coordinates (rx, ry) in a normalized
  cell-local frame".
\<close>

record CellLocation =
  face :: nat
  cell_j :: int
  cell_i :: int
  loc_rx :: real
  loc_ry :: real


text \<open>
  Modelled from the spec: \<^verbatim>\<open>KernelSpec.resolve_offsets\<close> (the body of seaduck's kernel
  code is not among the notebooks). It "expands relative stencil offsets against a
  specific resolved cell, walking face adjacency when an offset crosses a face boundary"
  and returns pairs of absolute grid index and weight. The walk over the adjacency table
  is the parameter \<open>walk\<close>; \<open>s\<close> is the position in the cascade of the stencil
  used at the point. The weight function is called as the notebook's
  \<^verbatim>\<open>dummy_weight\<close> is: on the arrays of local coordinates, here of the one point.
  A stencil with no weight function, or a weight vector whose length is not the size of
  the stencil, is the spec's \<^verbatim>\<open>ConfigurationError\<close>.
\<close>

definition resolve_offsets ::
  "(CellLocation \<Rightarrow> int \<times> int \<Rightarrow> grid_index) \<Rightarrow> KnW \<Rightarrow> nat \<Rightarrow> CellLocation
     \<Rightarrow> error + (grid_index \<times> real) list" where
  "resolve_offsets walk k s loc =
     (if s < length (kernels k) \<and> s < length (hfuncs k) then
        (case (hfuncs k ! s) [loc_rx loc] [loc_ry loc] of
           [w] \<Rightarrow>
             if length w = length (kernels k ! s)
             then Inr (zip (map (walk loc) (kernels k ! s)) w)
             else Inl ConfigurationError
         | _ \<Rightarrow> Inl ConfigurationError)
      else Inl ConfigurationError)"

text \<open>
  Modelled from the spec: \<^verbatim>\<open>Interpolator.interpolate\<close> at one point (seaduck's
  \<^verbatim>\<open>Position.interpolate\<close>, called by the notebook, defined outside it). For each
  point it "obtains (index, weight) pairs from the kernel, gathers field values via
  GridIndex, and computes the weighted sum". The outer result is the fatal error of the
  call ("configuration errors are always fatal"), the inner one the slot of the point:
  the value, or the error recorded there ("per-point errors never abort a batch; they
  are recorded in the corresponding output slot"). An index \<open>s\<close> outside the cascade
  says that no stencil of the kernel serves the point (a point on land, say): the point
  has no valid value.
\<close>

definition interpolate_point ::
  "ocefield \<Rightarrow> (CellLocation \<Rightarrow> int \<times> int \<Rightarrow> grid_index) \<Rightarrow> KnW \<Rightarrow> nat \<Rightarrow> CellLocation
     \<Rightarrow> error + (error + real)" where
  "interpolate_point fld walk k s loc =
     (if s < length (kernels k) then
        (case resolve_offsets walk k s loc of
           Inl e \<Rightarrow> Inl e
         | Inr iw \<Rightarrow> Inr (Inr (sum_list (map (\<lambda>(idx, w). w * fld idx) iw))))
      else Inr (Inl InvalidFieldError))"

text \<open>The first fatal error of a list of results, or all the values.\<close>

fun collect :: "(error + 'a) list \<Rightarrow> error + 'a list" where
  "collect [] = Inr []"
| "collect (r # rs) =
     (case r of
        Inl e \<Rightarrow> Inl e
      | Inr v \<Rightarrow> (case collect rs of Inl e \<Rightarrow> Inl e | Inr vs \<Rightarrow> Inr (v # vs)))"

text \<open>
  Modelled from the spec: \<^verbatim>\<open>Interpolator.interpolate\<close> over a batch (the body of
  seaduck's \<^verbatim>\<open>Position.interpolate\<close> is not among the notebooks): the field is
  looked up by name, and the call is "vectorized over an arbitrary batch of independent
  points", each with its slot. A kernel in which the stencils and the weight functions
  are not paired ("each stencil has ... an associated weight function") and any
  configuration error met at a point fail the whole call. \<open>used\<close> gives the stencil
  of the cascade that serves a point.
\<close>

definition interpolate ::
  "dataset \<Rightarrow> (CellLocation \<Rightarrow> int \<times> int \<Rightarrow> grid_index) \<Rightarrow> (CellLocation \<Rightarrow> nat)
     \<Rightarrow> CellLocation list \<Rightarrow> string \<Rightarrow> KnW \<Rightarrow> error + (error + real) list" where
  "interpolate ds walk used points fieldName k =
     (case ds fieldName of
        None \<Rightarrow> Inl (KeyError fieldName)
      | Some fld \<Rightarrow>
          if length (hfuncs k) \<noteq> length (kernels k) then Inl ConfigurationError
          else collect (map (\<lambda>loc. interpolate_point fld walk k (used loc) loc) points))"

text \<open>
  Concrete inputs: a dataset holding a field \<^verbatim>\<open>Eta\<close>, a walk, a point, and a
  choice of stencils: the first stencil in column 7, the second in column 8, none
  elsewhere.
\<close>

definition example_tub :: dataset where
  "example_tub = [''Eta'' \<mapsto> (\<lambda>idx. 3)]"

definition example_walk :: "CellLocation \<Rightarrow> int \<times> int \<Rightarrow> grid_index" where
  "example_walk loc off = (face loc, cell_j loc + fst off, cell_i loc + snd off)"

definition example_loc :: CellLocation where
  "example_loc = \<lparr>face = 0, cell_j = 4, cell_i = 7, loc_rx = 1 / 4, loc_ry = 0\<rparr>"

definition example_used :: "CellLocation \<Rightarrow> nat" where
  "example_used loc = (if cell_i loc = 7 then 0 else if cell_i loc = 8 then 1 else 2)"


section \<open>The particle object of the LLC4320 notebook\<close>

text \<open>
  The notebook passes the particles as arrays \<^verbatim>\<open>x\<close>, \<^verbatim>\<open>y\<close>, \<^verbatim>\<open>z\<close>,
  \<^verbatim>\<open>t\<close> of one length and reads arrays of that length back. Here a batch is the
  list of its particles, entry \<open>i\<close> of an array being the field of particle \<open>i\<close>.
  One particle: its position (longitude, latitude, depth, time) and the values the
  notebook reads from the snapshots, \<^verbatim>\<open>u\<close>, \<^verbatim>\<open>v\<close> (velocity relative to the
  grid, fields \<open>uvel\<close> and \<open>vvel\<close>), \<^verbatim>\<open>dx\<close> and \<^verbatim>\<open>dy\<close> (extents of the cell).
\<close>

record pstate =
  lon :: real
  lat :: real
  dep :: real
  tim :: real
  uvel :: real
  vvel :: real
  dx :: real
  dy :: real

text \<open>
  \<^verbatim>\<open>
  p = sd.Particle(x=x, y=y, z=z, t=t, data=oce, uname="u", vname="v", wname=None)
  \<close>
  The object holds the batch of particles, the names of the velocity components and
  the attributes the notebook assigns afterwards: the flag \<^verbatim>\<open>too_large\<close> (no
  prefetching when set) and the prefetched arrays \<^verbatim>\<open>uarray\<close>, \<^verbatim>\<open>varray\<close>
  (\<open>None\<close> while nothing is prefetched).
\<close>

record Particle =
  states :: "pstate list"
  uname :: string
  vname :: string
  wname :: "string option"
  too_large :: bool
  uarray :: "ocefield option"
  varray :: "ocefield option"

text \<open>\<^verbatim>\<open>p.too_large = False\<close>\<close>

definition unset_too_large :: "Particle \<Rightarrow> Particle" where
  "unset_too_large p = p\<lparr>too_large := False\<rparr>"

text \<open>
  \<^verbatim>\<open>
  p.uarray = np.array(oce["u"])
  p.varray = np.array(oce["v"])
  \<close>
  \<^verbatim>\<open>np.array\<close> loads the values of the field into memory; the values are the same.
\<close>

definition assign_uv_arrays :: "dataset \<Rightarrow> Particle \<Rightarrow> error + Particle" where
  "assign_uv_arrays oce p =
     (case oce ''u'' of
        None \<Rightarrow> Inl (KeyError ''u'')
      | Some fu \<Rightarrow>
          (case oce ''v'' of
             None \<Rightarrow> Inl (KeyError ''v'')
           | Some fv \<Rightarrow> Inr (p\<lparr>uarray := Some fu, varray := Some fv\<rparr>)))"

text \<open>The two cells one after the other.\<close>

definition prefetch_cells :: "dataset \<Rightarrow> Particle \<Rightarrow> error + Particle" where
  "prefetch_cells oce p = assign_uv_arrays oce (unset_too_large p)"

text \<open>
  Concrete inputs. \<open>example_particle\<close> is a particle object as the notebook describes
  it after construction on a large dataset ("by default it doesn't prefetch data"): the
  flag is set and no array is held. The notebook's particles start at depth \<open>-10\<close>
  and time \<open>10\<close>.
\<close>

definition example_pstate :: "real \<Rightarrow> pstate" where
  "example_pstate x =
     \<lparr>lon = x, lat = 0, dep = - 10, tim = 10, uvel = 1, vvel = 0, dx = 1000, dy = 1000\<rparr>"

definition example_particle :: Particle where
  "example_particle =
     \<lparr>states = [example_pstate 0, example_pstate 5], uname = ''u'', vname = ''v'',
      wname = None, too_large = True, uarray = None, varray = None\<rparr>"

definition example_oce :: dataset where
  "example_oce = [''u'' \<mapsto> (\<lambda>idx. 1), ''v'' \<mapsto> (\<lambda>idx. 0)]"


section \<open>The store of kernel objects\<close>

lemma make_kernels_eq:
  "make_kernels dflt h = (length h, Suc (length h), h @ [dflt, dflt])"
  by (simp add: make_kernels_def KnW_init_def)

lemma setattr_hfuncs_length: "length (setattr_hfuncs a fs h) = length h"
  by (simp add: setattr_hfuncs_def)

lemma setattr_hfuncs_other: "b \<noteq> a \<Longrightarrow> setattr_hfuncs a fs h ! b = h ! b"
  by (simp add: setattr_hfuncs_def)

lemma setattr_hfuncs_same:
  "a < length h \<Longrightarrow> setattr_hfuncs a fs h ! a = (h ! a)\<lparr>hfuncs := fs\<rparr>"
  by (simp add: setattr_hfuncs_def)

lemma hacked_kernel_value:
  "hack_hfuncs (length h) (Suc (length h)) (h @ [dflt, dflt]) ! Suc (length h) =
     dflt\<lparr>hfuncs := map (\<lambda>k. (\<lambda>rx ry. dummy_weight rx ry (length k))) (kernels dflt)\<rparr>"
  by (simp add: hack_hfuncs_def setattr_hfuncs_same nth_append)

text \<open>
  Claim C7, as the code has it. Assigning \<^verbatim>\<open>hfuncs\<close> on the kernel object at an
  address \<open>a\<close> of any store \<open>g\<close> changes that object in place: no object is
  constructed, its stencils stay, its weight functions become the assigned ones; every
  other object of the store keeps its stencils and weight functions. In the notebook:
  \<^verbatim>\<open>kernel\<close> and \<^verbatim>\<open>kernel_to_be_hacked\<close> are two objects, the assignment to
  \<^verbatim>\<open>kernel_to_be_hacked.hfuncs\<close> gives that object the constant-one functions and
  leaves \<^verbatim>\<open>kernel\<close>, constructed by the same call, as it was constructed. So
  whatever is computed from the object \<^verbatim>\<open>kernel\<close> alone, by any function
  \<open>through\<close> of a kernel object, such as an interpolation through that kernel, is
  the same after the assignment as before it.
\<close>

theorem hfuncs_assignment_frame:
  assumes "make_kernels dflt h = (kernel_plain, kernel_to_be_hacked, h2)"
  shows "length (setattr_hfuncs a fs g) = length g
    \<and> (\<forall>b. b \<noteq> a \<longrightarrow> setattr_hfuncs a fs g ! b = g ! b)
    \<and> (a < length g \<longrightarrow> kernels (setattr_hfuncs a fs g ! a) = kernels (g ! a)
          \<and> hfuncs (setattr_hfuncs a fs g ! a) = fs)
    \<and> kernel_plain \<noteq> kernel_to_be_hacked
    \<and> kernel_plain < length h2 \<and> kernel_to_be_hacked < length h2
    \<and> length (hack_hfuncs kernel_plain kernel_to_be_hacked h2) = length h2
    \<and> (\<forall>b. b \<noteq> kernel_to_be_hacked \<longrightarrow>
          hack_hfuncs kernel_plain kernel_to_be_hacked h2 ! b = h2 ! b)
    \<and> hack_hfuncs kernel_plain kernel_to_be_hacked h2 ! kernel_plain = dflt
    \<and> through (hack_hfuncs kernel_plain kernel_to_be_hacked h2 ! kernel_plain) =
        through (h2 ! kernel_plain)
    \<and> kernels (hack_hfuncs kernel_plain kernel_to_be_hacked h2 ! kernel_to_be_hacked) =
        kernels dflt
    \<and> hfuncs (hack_hfuncs kernel_plain kernel_to_be_hacked h2 ! kernel_to_be_hacked) =
        map (\<lambda>k. (\<lambda>rx ry. dummy_weight rx ry (length k))) (kernels dflt)"
  using assms
  by (auto simp add: make_kernels_eq hack_hfuncs_def setattr_hfuncs_length
      setattr_hfuncs_other setattr_hfuncs_same nth_append)

text \<open>
  The theorem at the example kernel and the empty store: \<^verbatim>\<open>kernel\<close> is object 0,
  \<^verbatim>\<open>kernel_to_be_hacked\<close> object 1. The function \<open>through\<close> here gives the
  weights of the first stencil of a kernel at local coordinates \<open>(0, 0)\<close>.
\<close>

theorem hfuncs_assignment_frame_witness:
  "make_kernels example_KnW [] = (0, Suc 0, [example_KnW, example_KnW])
   \<and> Suc 0 < length [example_KnW, example_KnW]
   \<and> setattr_hfuncs (Suc 0) [nearest_weight] [example_KnW, example_KnW] ! 0 = example_KnW
   \<and> hfuncs (setattr_hfuncs (Suc 0) [nearest_weight] [example_KnW, example_KnW] ! Suc 0) =
       [nearest_weight]
   \<and> length (hack_hfuncs 0 (Suc 0) [example_KnW, example_KnW]) = 2
   \<and> hack_hfuncs 0 (Suc 0) [example_KnW, example_KnW] ! 0 = example_KnW
   \<and> (hfuncs (hack_hfuncs 0 (Suc 0) [example_KnW, example_KnW] ! 0) ! 0) [0] [0] = [[1, 0]]
   \<and> kernels (hack_hfuncs 0 (Suc 0) [example_KnW, example_KnW] ! Suc 0) =
       [[(0, 0), (0, 1)], [(0, 0)]]"
proof -
  have before: "(hfuncs ([example_KnW, example_KnW] ! 0) ! 0) [0] [0] = [[1, 0]]"
    by (simp add: example_KnW_def linear_weight_def)
  show ?thesis
    using hfuncs_assignment_frame [of example_KnW "[]" 0 "Suc 0" "[example_KnW, example_KnW]"
        "Suc 0" "[nearest_weight]" "[example_KnW, example_KnW]"
        "\<lambda>k. (hfuncs k ! 0) [0] [0]"] before
    by (simp add: make_kernels_eq example_KnW_def)
qed

text \<open>
  Claim C7 as stated fails in its second half: the behaviour of a kernel changes with
  no kernel constructed. In the run on the example kernel the store has two objects
  before and after the assignment; at local coordinates \<open>(0, 0)\<close> the first stencil
  of object 1 (\<^verbatim>\<open>kernel_to_be_hacked\<close>) has the legal weights \<open>[1, 0]\<close> before
  the assignment and the weights \<open>[1, 1]\<close> of the notebook's \<^verbatim>\<open>dummy_weight\<close>
  after it.
\<close>

theorem kernel_changed_in_place_counterexample:
  "length (hack_hfuncs 0 (Suc 0) [example_KnW, example_KnW]) =
     length [example_KnW, example_KnW]
   \<and> (hfuncs ([example_KnW, example_KnW] ! Suc 0) ! 0) [0] [0] = [[1, 0]]
   \<and> (hfuncs (hack_hfuncs 0 (Suc 0) [example_KnW, example_KnW] ! Suc 0) ! 0) [0] [0] = [[1, 1]]"
  by (simp add: hack_hfuncs_def setattr_hfuncs_def example_KnW_def dummy_weight_def
      linear_weight_def)

section \<open>Counting the neighbours\<close>

lemma sum_list_ones:
  "length idxs = n \<Longrightarrow>
   sum_list (map (\<lambda>(idx, w). w * ones_like eta idx) (zip idxs (replicate n 1))) = real n"
proof (induction idxs arbitrary: n)
  case Nil
  then show ?case by simp
next
  case (Cons a idxs)
  then obtain m where m: "n = Suc m" "length idxs = m"
    by (cases n) auto
  with Cons.IH [of m] show ?case
    by (simp add: ones_like_def)
qed

lemma collect_Inr: "collect (map (\<lambda>x. Inr (g x)) xs) = Inr (map g xs)"
  by (induction xs) simp_all

lemma resolve_offsets_dummy:
  assumes "s < length (kernels dflt)"
  shows "resolve_offsets walk
           (dflt\<lparr>hfuncs := map (\<lambda>k. (\<lambda>rx ry. dummy_weight rx ry (length k))) (kernels dflt)\<rparr>)
           s loc =
         Inr (zip (map (walk loc) (kernels dflt ! s))
                (replicate (length (kernels dflt ! s)) 1))"
  using assms by (simp add: resolve_offsets_def dummy_weight_def)

lemma interpolate_point_dummy:
  "interpolate_point (ones_like eta) walk
     (dflt\<lparr>hfuncs := map (\<lambda>k. (\<lambda>rx ry. dummy_weight rx ry (length k))) (kernels dflt)\<rparr>)
     s loc =
   Inr (if s < length (kernels dflt) then Inr (real (length (kernels dflt ! s)))
        else Inl InvalidFieldError)"
  by (simp add: interpolate_point_def resolve_offsets_dummy sum_list_ones)

text \<open>
  In this model of interpolation the result of a call is a function of the kernel object
  it is given, so the call through \<^verbatim>\<open>kernel\<close> returns after the assignment what it
  returned before.
\<close>

lemma interpolate_through_plain_kernel:
  assumes "make_kernels dflt h = (kernel_plain, kernel_to_be_hacked, h2)"
  shows "interpolate ds walk used points fieldName
           (hack_hfuncs kernel_plain kernel_to_be_hacked h2 ! kernel_plain) =
         interpolate ds walk used points fieldName (h2 ! kernel_plain)"
  using assms by (auto simp add: make_kernels_eq hack_hfuncs_def setattr_hfuncs_other)

text \<open>
  Claim C3. After the notebook has replaced the weight functions of
  \<^verbatim>\<open>kernel_to_be_hacked\<close> by the constant-one functions and added the field
  \<^verbatim>\<open>ones\<close>, interpolating \<^verbatim>\<open>ones\<close> through that kernel succeeds for every batch
  of query points, and for every query point the slot of the point holds the number of
  points of the stencil the kernel used at that point. A point that no stencil of the
  kernel serves has the slot of a point with no valid value, and does not touch the
  slots of the other points.
\<close>

theorem count_contributing_neighbors:
  assumes "make_kernels dflt h = (kernel_plain, kernel_to_be_hacked, h2)"
    and "add_ones tub = Inr tub'"
  shows "interpolate tub' walk used points ''ones''
           (hack_hfuncs kernel_plain kernel_to_be_hacked h2 ! kernel_to_be_hacked) =
         Inr (map (\<lambda>loc.
                if used loc <
                   length (kernels (hack_hfuncs kernel_plain kernel_to_be_hacked h2
                                      ! kernel_to_be_hacked))
                then Inr (real (length
                       (kernels (hack_hfuncs kernel_plain kernel_to_be_hacked h2
                                   ! kernel_to_be_hacked) ! used loc)))
                else Inl InvalidFieldError)
              points)"
proof -
  from assms(2) obtain eta where eta: "tub' = tub(''ones'' \<mapsto> ones_like eta)"
    by (auto simp add: add_ones_def split: option.splits)
  from assms(1) have addr: "kernel_plain = length h" "kernel_to_be_hacked = Suc (length h)"
    "h2 = h @ [dflt, dflt]"
    by (simp_all add: make_kernels_eq)
  show ?thesis
    by (simp add: interpolate_def eta addr hacked_kernel_value interpolate_point_dummy
        collect_Inr)
qed

text \<open>
  The theorem at the example kernel and a batch of three points: the first is served by
  the two-point stencil, the second by the one-point stencil, the third by none.
\<close>

theorem count_contributing_neighbors_witness:
  "make_kernels example_KnW [] = (0, Suc 0, [example_KnW, example_KnW])
   \<and> add_ones example_tub = Inr (example_tub(''ones'' \<mapsto> ones_like (\<lambda>idx. 3)))
   \<and> interpolate (example_tub(''ones'' \<mapsto> ones_like (\<lambda>idx. 3))) example_walk example_used
        [example_loc, example_loc\<lparr>cell_i := 8\<rparr>, example_loc\<lparr>cell_i := 9\<rparr>] ''ones''
        (hack_hfuncs 0 (Suc 0) [example_KnW, example_KnW] ! Suc 0) =
      Inr [Inr 2, Inr 1, Inl InvalidFieldError]"
proof -
  have mk: "make_kernels example_KnW [] = (0, Suc 0, [example_KnW, example_KnW])"
    by (simp add: make_kernels_eq)
  have ones: "add_ones example_tub = Inr (example_tub(''ones'' \<mapsto> ones_like (\<lambda>idx. 3)))"
    by (simp add: add_ones_def example_tub_def)
  have kern: "kernels (hack_hfuncs 0 (Suc 0) [example_KnW, example_KnW] ! Suc 0) =
                [[(0, 0), (0, 1)], [(0, 0)]]"
    by (simp add: hack_hfuncs_def setattr_hfuncs_def example_KnW_def)
  have sizes: "map (\<lambda>loc.
                if used loc <
                   length (kernels (hack_hfuncs 0 (Suc 0) [example_KnW, example_KnW] ! Suc 0))
                then Inr (real (length
                       (kernels (hack_hfuncs 0 (Suc 0) [example_KnW, example_KnW] ! Suc 0)
                          ! used loc)))
                else Inl InvalidFieldError)
                [example_loc, example_loc\<lparr>cell_i := 8\<rparr>, example_loc\<lparr>cell_i := 9\<rparr>] =
               [Inr 2, Inr 1, Inl InvalidFieldError :: error + real]"
    if "used = example_used" for used
    using that by (simp add: kern example_used_def example_loc_def)
  have "interpolate (example_tub(''ones'' \<mapsto> ones_like (\<lambda>idx. 3))) example_walk example_used
          [example_loc, example_loc\<lparr>cell_i := 8\<rparr>, example_loc\<lparr>cell_i := 9\<rparr>] ''ones''
          (hack_hfuncs 0 (Suc 0) [example_KnW, example_KnW] ! Suc 0) =
        Inr [Inr 2, Inr 1, Inl InvalidFieldError]"
    using count_contributing_neighbors [OF mk ones, of example_walk example_used]
    by (simp only: sizes [OF refl])
  then show ?thesis
    using mk ones by simp
qed


section \<open>The loading policy of a particle object\<close>

text \<open>
  Claim C8, as the code has it. The loading policy is the attribute
  \<^verbatim>\<open>too_large\<close> of the particle object, and the notebook overwrites it after the
  object is constructed; that assignment alone clears the flag and leaves the arrays as
  they were. The arrays of \<^verbatim>\<open>u\<close> and \<^verbatim>\<open>v\<close> are loaded by the next cell, which
  assigns them to \<^verbatim>\<open>uarray\<close> and \<^verbatim>\<open>varray\<close>. After the two cells the object
  prefetches and holds both arrays, whatever its flag and arrays were before; nothing
  else of it has changed.
\<close>

theorem prefetch_cells_eager:
  assumes "oce ''u'' = Some fu" and "oce ''v'' = Some fv"
  shows "too_large (unset_too_large p) = False
    \<and> uarray (unset_too_large p) = uarray p \<and> varray (unset_too_large p) = varray p
    \<and> prefetch_cells oce p =
        Inr (p\<lparr>too_large := False, uarray := Some fu, varray := Some fv\<rparr>)"
  using assms by (simp add: prefetch_cells_def assign_uv_arrays_def unset_too_large_def)

text \<open>The theorem at the example dataset and the example particle object.\<close>

theorem prefetch_cells_eager_witness:
  "example_oce ''u'' = Some (\<lambda>idx. 1) \<and> example_oce ''v'' = Some (\<lambda>idx. 0)
   \<and> prefetch_cells example_oce example_particle =
       Inr (example_particle\<lparr>too_large := False, uarray := Some (\<lambda>idx. 1),
              varray := Some (\<lambda>idx. 0)\<rparr>)"
  using prefetch_cells_eager [of example_oce "\<lambda>idx. 1" "\<lambda>idx. 0" example_particle]
  by (simp add: example_oce_def)

text \<open>
  Claim C8 as stated fails: the policy of the example particle object, constructed with
  \<^verbatim>\<open>too_large\<close> set, is changed by the assignment of the notebook, and right after
  it the object is in the prefetching mode with no array loaded.
\<close>

theorem policy_toggled_at_runtime_counterexample:
  "too_large example_particle \<and> \<not> too_large (unset_too_large example_particle)
   \<and> uarray (unset_too_large example_particle) = None
   \<and> varray (unset_too_large example_particle) = None"
  by (simp add: example_particle_def unset_too_large_def)


end
